theory Spec2Isabelle
  imports Main
begin

section \<open>Data model\<close>

text \<open>
  The rows of the tables that \<^verbatim>\<open>server/storage.ts\<close> reads and writes. Timestamps are
  JavaScript \<^verbatim>\<open>Date\<close> values, modelled as milliseconds since the epoch. Columns that no
  handler of \<^verbatim>\<open>server/routes.ts\<close> reads or writes (\<^verbatim>\<open>createdAt\<close>, \<^verbatim>\<open>updatedAt\<close>, the
  generated keys of the two append-only tables) are left out. Field names carry a
  prefix per table, since several tables share column names.
\<close>

record User =
  u_id :: string
  u_email :: string
  u_password :: string
  u_role :: string
  u_storeId :: "string option"
  u_mustResetPassword :: bool
  u_isActive :: bool

record Store =
  st_id :: string
  st_name :: string
  st_description :: "string option"
  st_isActive :: bool

record ClothingItem =
  ci_id :: string
  ci_storeId :: string
  ci_name :: string
  ci_category :: string
  ci_barcode :: "string option"
  ci_imageUrl :: string
  ci_isAvailable :: bool
  ci_tryOnCount :: int

record QrSession =
  qr_id :: string
  qr_storeId :: string
  qr_token :: string
  qr_expiresAt :: int

record CustomerSession =
  cs_id :: string
  cs_qrSessionId :: string
  cs_storeId :: string
  cs_expiresAt :: int
  cs_photoUrl :: "string option"

record TryOnHistory =
  th_customerSessionId :: string
  th_clothingItemId :: string
  th_resultImageUrl :: string

text \<open>
  The \<^verbatim>\<open>metadata\<close> column holds \<^verbatim>\<open>JSON.stringify\<close> of a small object; the model keeps
  the object (its keys in order, with their values) instead of its rendering.
\<close>

datatype JsonValue = JString string | JBool bool

record UsageLog =
  ul_storeId :: string
  ul_action :: string
  ul_metadata :: "(string \<times> JsonValue) list"

text \<open>
  The database: one list of rows per table. A \<^verbatim>\<open>select\<close> without \<^verbatim>\<open>orderBy\<close> whose
  first row is taken (\<^verbatim>\<open>const [row] = await db.select()...\<close>) is the first matching
  row of the list.
\<close>

record database =
  users :: "User list"
  stores :: "Store list"
  clothingItems :: "ClothingItem list"
  qrSessions :: "QrSession list"
  customerSessions :: "CustomerSession list"
  tryOnHistory :: "TryOnHistory list"
  usageLogs :: "UsageLog list"

section \<open>The storage layer (\<^verbatim>\<open>server/storage.ts\<close>)\<close>

definition getUser :: "database \<Rightarrow> string \<Rightarrow> User option" where
  "getUser db i = find (\<lambda>u. u_id u = i) (users db)"

definition getUserByEmail :: "database \<Rightarrow> string \<Rightarrow> User option" where
  "getUserByEmail db e = find (\<lambda>u. u_email u = e) (users db)"

text \<open>\<^verbatim>\<open>Partial<User>\<close> is the function that sets the given columns.\<close>

definition updateUser :: "database \<Rightarrow> string \<Rightarrow> (User \<Rightarrow> User) \<Rightarrow> database" where
  "updateUser db i f = db\<lparr>users := map (\<lambda>u. if u_id u = i then f u else u) (users db)\<rparr>"

definition getStore :: "database \<Rightarrow> string \<Rightarrow> Store option" where
  "getStore db i = find (\<lambda>s. st_id s = i) (stores db)"

definition getClothingItem :: "database \<Rightarrow> string \<Rightarrow> ClothingItem option" where
  "getClothingItem db i = find (\<lambda>c. ci_id c = i) (clothingItems db)"

text \<open>
  \<^verbatim>\<open>UPDATE ... SET try_on_count = try_on_count + 1 WHERE id = ...\<close>: the addition is done
  by the database on an integer column. The column's type belongs to the schema
  (\<^verbatim>\<open>shared/schema.ts\<close>), not to the storage layer, so its largest value is the
  argument \<open>maxCount\<close>. When a row it updates already holds that value the statement
  fails with "integer out of range" and changes no row: the result is \<open>None\<close> and the
  caller's \<^verbatim>\<open>await\<close> throws.
\<close>

definition incrementTryOnCount :: "int \<Rightarrow> database \<Rightarrow> string \<Rightarrow> database option" where
  "incrementTryOnCount maxCount db i =
     (if list_ex (\<lambda>c. ci_id c = i \<and> maxCount \<le> ci_tryOnCount c) (clothingItems db)
      then None
      else Some (db\<lparr>clothingItems :=
                     map (\<lambda>c. if ci_id c = i then c\<lparr>ci_tryOnCount := ci_tryOnCount c + 1\<rparr>
                               else c)
                         (clothingItems db)\<rparr>))"

text \<open>\<^verbatim>\<open>gt(qrSessions.expiresAt, new Date())\<close>: a grant is found only while \<open>now < expiresAt\<close>.\<close>

definition getQrSessionByToken :: "database \<Rightarrow> int \<Rightarrow> string \<Rightarrow> QrSession option" where
  "getQrSessionByToken db now tok =
     find (\<lambda>q. qr_token q = tok \<and> now < qr_expiresAt q) (qrSessions db)"

text \<open>
  An insert returns the new row. The key the database generates for it is an argument
  of the model (\<open>newId\<close>).
\<close>

definition createQrSession ::
  "database \<Rightarrow> string \<Rightarrow> string \<Rightarrow> string \<Rightarrow> int \<Rightarrow> QrSession \<times> database" where
  "createQrSession db newId storeId tok expiresAt =
     (let row = \<lparr>qr_id = newId, qr_storeId = storeId, qr_token = tok, qr_expiresAt = expiresAt\<rparr>
      in (row, db\<lparr>qrSessions := qrSessions db @ [row]\<rparr>))"

definition getCustomerSession :: "database \<Rightarrow> string \<Rightarrow> CustomerSession option" where
  "getCustomerSession db i = find (\<lambda>s. cs_id s = i) (customerSessions db)"

text \<open>The insert gives no \<^verbatim>\<open>photoUrl\<close>: the nullable column starts as null.\<close>

definition createCustomerSession ::
  "database \<Rightarrow> string \<Rightarrow> string \<Rightarrow> string \<Rightarrow> int \<Rightarrow> CustomerSession \<times> database" where
  "createCustomerSession db newId qrSessionId storeId expiresAt =
     (let row = \<lparr>cs_id = newId, cs_qrSessionId = qrSessionId, cs_storeId = storeId,
                 cs_expiresAt = expiresAt, cs_photoUrl = None\<rparr>
      in (row, db\<lparr>customerSessions := customerSessions db @ [row]\<rparr>))"

definition updateCustomerSession ::
  "database \<Rightarrow> string \<Rightarrow> (CustomerSession \<Rightarrow> CustomerSession) \<Rightarrow> database" where
  "updateCustomerSession db i f =
     db\<lparr>customerSessions := map (\<lambda>s. if cs_id s = i then f s else s) (customerSessions db)\<rparr>"

definition createTryOnHistory :: "database \<Rightarrow> TryOnHistory \<Rightarrow> database" where
  "createTryOnHistory db h = db\<lparr>tryOnHistory := tryOnHistory db @ [h]\<rparr>"

definition createUsageLog :: "database \<Rightarrow> UsageLog \<Rightarrow> database" where
  "createUsageLog db l = db\<lparr>usageLogs := usageLogs db @ [l]\<rparr>"

section \<open>Requests and replies (\<^verbatim>\<open>server/routes.ts\<close>)\<close>

text \<open>\<^verbatim>\<open>res.status(code).json({ message })\<close>.\<close>

datatype HttpError = HttpError nat string

text \<open>
  JavaScript truthiness of an optional string (a body field, a nullable column, an
  environment variable): \<^verbatim>\<open>undefined\<close>, \<^verbatim>\<open>null\<close> and the empty string are falsy.
\<close>

definition truthy :: "string option \<Rightarrow> bool" where
  "truthy x = (case x of None \<Rightarrow> False | Some s \<Rightarrow> s \<noteq> [])"

record JwtClaims =
  jc_id :: string
  jc_email :: string
  jc_role :: string
  jc_storeId :: "string option"

text \<open>
  The \<^verbatim>\<open>Authorization\<close> header as \<^verbatim>\<open>authMiddleware\<close> sees it: absent or not a bearer
  header, a bearer token that \<^verbatim>\<open>jwt.verify\<close> rejects, or one it decodes.
\<close>

datatype Authorization = NoBearer | BadToken | Verified JwtClaims

definition authMiddleware :: "Authorization \<Rightarrow> HttpError + JwtClaims" where
  "authMiddleware h =
     (case h of
        NoBearer \<Rightarrow> Inl (HttpError 401 ''Unauthorized'')
      | BadToken \<Rightarrow> Inl (HttpError 401 ''Invalid token'')
      | Verified decoded \<Rightarrow> Inr decoded)"

definition ownerOnlyMiddleware :: "JwtClaims \<Rightarrow> HttpError + JwtClaims" where
  "ownerOnlyMiddleware user =
     (if jc_role user \<noteq> ''company_owner'' then Inl (HttpError 403 ''Access denied'')
      else Inr user)"

definition managerOnlyMiddleware :: "JwtClaims \<Rightarrow> HttpError + JwtClaims" where
  "managerOnlyMiddleware user =
     (if jc_role user \<noteq> ''store_manager'' then Inl (HttpError 403 ''Access denied'')
      else Inr user)"

subsection \<open>\<^verbatim>\<open>POST /api/auth/login\<close>\<close>

record UserView =
  uv_id :: string
  uv_email :: string
  uv_role :: string
  uv_storeId :: "string option"
  uv_storeName :: "string option"
  uv_mustResetPassword :: bool

record LoginReply =
  lr_token :: string
  lr_user :: UserView

text \<open>
  \<open>parsed\<close> is the result of \<^verbatim>\<open>loginSchema.safeParse(req.body)\<close> (\<open>None\<close> when it fails),
  \<open>compare\<close> is \<^verbatim>\<open>bcrypt.compare\<close> and \<open>sign\<close> is \<^verbatim>\<open>jwt.sign\<close> with the server's
  secret and the 24 hour lifetime. The handler writes nothing.
\<close>

definition login ::
  "(string \<Rightarrow> string \<Rightarrow> bool) \<Rightarrow> (JwtClaims \<Rightarrow> string) \<Rightarrow> database \<Rightarrow>
   (string \<times> string) option \<Rightarrow> HttpError + LoginReply" where
  "login compare sign db parsed =
     (case parsed of
        None \<Rightarrow> Inl (HttpError 400 ''Invalid input'')
      | Some (email, password) \<Rightarrow>
          (case getUserByEmail db email of
             None \<Rightarrow> Inl (HttpError 401 ''Invalid credentials'')
           | Some user \<Rightarrow>
               if \<not> u_isActive user then Inl (HttpError 401 ''Invalid credentials'')
               else if \<not> compare password (u_password user)
               then Inl (HttpError 401 ''Invalid credentials'')
               else
                 let storeName =
                       (if truthy (u_storeId user)
                        then (case u_storeId user of
                                None \<Rightarrow> None
                              | Some sid \<Rightarrow> map_option st_name (getStore db sid))
                        else None);
                     token = sign \<lparr>jc_id = u_id user, jc_email = u_email user,
                                   jc_role = u_role user, jc_storeId = u_storeId user\<rparr>
                 in Inr \<lparr>lr_token = token,
                         lr_user = \<lparr>uv_id = u_id user, uv_email = u_email user,
                                    uv_role = u_role user, uv_storeId = u_storeId user,
                                    uv_storeName = storeName,
                                    uv_mustResetPassword = u_mustResetPassword user\<rparr>\<rparr>))"

subsection \<open>\<^verbatim>\<open>POST /api/auth/reset-password\<close>\<close>

text \<open>
  \<open>parsed\<close> is the result of \<^verbatim>\<open>resetPasswordSchema.safeParse(req.body)\<close>, the pair of
  the current and the new password; \<open>hash\<close> is \<^verbatim>\<open>bcrypt.hash(_, 10)\<close>.
\<close>

definition reset_password ::
  "(string \<Rightarrow> string \<Rightarrow> bool) \<Rightarrow> (string \<Rightarrow> string) \<Rightarrow> database \<Rightarrow> Authorization \<Rightarrow>
   (string \<times> string) option \<Rightarrow> (HttpError + string) \<times> database" where
  "reset_password compare hash db auth parsed =
     (case authMiddleware auth of
        Inl e \<Rightarrow> (Inl e, db)
      | Inr req_user \<Rightarrow>
          (case parsed of
             None \<Rightarrow> (Inl (HttpError 400 ''Invalid input''), db)
           | Some (currentPassword, newPassword) \<Rightarrow>
               (case getUser db (jc_id req_user) of
                  None \<Rightarrow> (Inl (HttpError 404 ''User not found''), db)
                | Some user \<Rightarrow>
                    if \<not> compare currentPassword (u_password user)
                    then (Inl (HttpError 401 ''Current password is incorrect''), db)
                    else
                      let hashedPassword = hash newPassword
                      in (Inr ''Password updated successfully'',
                          updateUser db (u_id user)
                            (\<lambda>u. u\<lparr>u_password := hashedPassword,
                                   u_mustResetPassword := False\<rparr>)))))"

subsection \<open>\<^verbatim>\<open>POST /api/stores/:id/reset-password\<close>\<close>

record TempPasswordReply =
  tp_tempPassword :: string
  tp_message :: string

text \<open>
  \<open>tempPassword\<close> is the value of \<^verbatim>\<open>generateTempPassword()\<close>, eight hexadecimal digits
  from \<^verbatim>\<open>randomBytes(4)\<close>. The handler computes its hash and stores it nowhere.
\<close>

definition store_reset_password ::
  "(string \<Rightarrow> string) \<Rightarrow> database \<Rightarrow> Authorization \<Rightarrow> string \<Rightarrow> string \<Rightarrow>
   (HttpError + TempPasswordReply) \<times> database" where
  "store_reset_password hash db auth storeId tempPassword =
     (case authMiddleware auth of
        Inl e \<Rightarrow> (Inl e, db)
      | Inr req_user \<Rightarrow>
          (case ownerOnlyMiddleware req_user of
             Inl e \<Rightarrow> (Inl e, db)
           | Inr _ \<Rightarrow>
               (case getStore db storeId of
                  None \<Rightarrow> (Inl (HttpError 404 ''Store not found''), db)
                | Some store \<Rightarrow>
                    let hashedPassword = hash tempPassword
                    in (Inr \<lparr>tp_tempPassword = tempPassword,
                             tp_message = ''Password reset successfully''\<rparr>, db))))"

subsection \<open>\<^verbatim>\<open>POST /api/store/qr/generate\<close>\<close>

record QrReply =
  qg_qrCode :: string
  qg_token :: string
  qg_expiresAt :: int

text \<open>
  \<open>now\<close> is \<^verbatim>\<open>Date.now()\<close>, \<open>tok\<close> the value of \<^verbatim>\<open>randomBytes(32).toString("hex")\<close>,
  \<open>toDataURL\<close> is \<^verbatim>\<open>QRCode.toDataURL\<close> with the fixed width and margin, \<open>protocol\<close> and
  \<open>host\<close> come from the request. The reply renders \<open>expiresAt\<close> with
  \<^verbatim>\<open>toISOString()\<close>; the model keeps the instant.
\<close>

definition qr_generate ::
  "(string \<Rightarrow> string) \<Rightarrow> database \<Rightarrow> int \<Rightarrow> string \<Rightarrow> string \<Rightarrow> Authorization \<Rightarrow>
   string \<Rightarrow> string \<Rightarrow> (HttpError + QrReply) \<times> database" where
  "qr_generate toDataURL db now newId tok auth protocol host =
     (case authMiddleware auth of
        Inl e \<Rightarrow> (Inl e, db)
      | Inr req_user \<Rightarrow>
          (case managerOnlyMiddleware req_user of
             Inl e \<Rightarrow> (Inl e, db)
           | Inr _ \<Rightarrow>
               (case jc_storeId req_user of
                  None \<Rightarrow> (Inl (HttpError 400 ''No store associated with this account''), db)
                | Some storeId \<Rightarrow>
                    if storeId = []
                    then (Inl (HttpError 400 ''No store associated with this account''), db)
                    else
                      let expiresAt = now + 60 * 60 * 1000;
                          (qrSession, db1) = createQrSession db newId storeId tok expiresAt;
                          qrCodeUrl = protocol @ ''://'' @ host @ ''/?session='' @ tok;
                          qrCode = toDataURL qrCodeUrl;
                          db2 = createUsageLog db1
                                  \<lparr>ul_storeId = storeId, ul_action = ''qr_generated'',
                                   ul_metadata = [(''sessionId'', JString (qr_id qrSession))]\<rparr>
                      in (Inr \<lparr>qg_qrCode = qrCode, qg_token = tok, qg_expiresAt = expiresAt\<rparr>,
                          db2))))"

subsection \<open>\<^verbatim>\<open>GET /api/qr/:token/validate\<close>\<close>

record SessionView =
  sv_sessionId :: string
  sv_storeId :: string
  sv_storeName :: string
  sv_expiresAt :: int

text \<open>
  \<open>now\<close> is the \<^verbatim>\<open>new Date()\<close> of the lookup and \<open>newId\<close> the key generated for the new
  customer session.
\<close>

definition qr_validate ::
  "database \<Rightarrow> int \<Rightarrow> string \<Rightarrow> string \<Rightarrow> (HttpError + SessionView) \<times> database" where
  "qr_validate db now newId tok =
     (case getQrSessionByToken db now tok of
        None \<Rightarrow> (Inl (HttpError 404 ''Invalid or expired session''), db)
      | Some qrSession \<Rightarrow>
          (case getStore db (qr_storeId qrSession) of
             None \<Rightarrow> (Inl (HttpError 404 ''Store not available''), db)
           | Some store \<Rightarrow>
               if \<not> st_isActive store then (Inl (HttpError 404 ''Store not available''), db)
               else
                 let (customerSession, db1) =
                       createCustomerSession db newId (qr_id qrSession) (qr_storeId qrSession)
                         (qr_expiresAt qrSession);
                     db2 = createUsageLog db1
                             \<lparr>ul_storeId = qr_storeId qrSession, ul_action = ''session_created'',
                              ul_metadata =
                                [(''customerSessionId'', JString (cs_id customerSession))]\<rparr>
                 in (Inr \<lparr>sv_sessionId = cs_id customerSession, sv_storeId = st_id store,
                          sv_storeName = st_name store,
                          sv_expiresAt = qr_expiresAt qrSession\<rparr>, db2)))"

text \<open>A run of redemptions of one token, each at its own time and with its own new key.\<close>

fun qr_validate_all ::
  "database \<Rightarrow> string \<Rightarrow> (int \<times> string) list \<Rightarrow> (HttpError + SessionView) list \<times> database" where
  "qr_validate_all db tok [] = ([], db)"
| "qr_validate_all db tok ((now, newId) # calls) =
     (let (r, db1) = qr_validate db now newId tok;
          (rs, db2) = qr_validate_all db1 tok calls
      in (r # rs, db2))"

subsection \<open>\<^verbatim>\<open>POST /api/customer/upload-photo\<close>\<close>

text \<open>
  \<open>sessionId\<close> is the body field and \<open>file\<close> the name multer gave the stored upload
  (\<^verbatim>\<open>req.file.filename\<close>), \<open>None\<close> when the request carries no file.
\<close>

definition upload_photo ::
  "database \<Rightarrow> int \<Rightarrow> string option \<Rightarrow> string option \<Rightarrow> (HttpError + string) \<times> database" where
  "upload_photo db now sessionId file =
     (case sessionId of
        None \<Rightarrow> (Inl (HttpError 400 ''Session ID required''), db)
      | Some sid \<Rightarrow>
          if sid = [] then (Inl (HttpError 400 ''Session ID required''), db)
          else
            (case getCustomerSession db sid of
               None \<Rightarrow> (Inl (HttpError 401 ''Session expired''), db)
             | Some session \<Rightarrow>
                 if cs_expiresAt session < now then (Inl (HttpError 401 ''Session expired''), db)
                 else
                   (case file of
                      None \<Rightarrow> (Inl (HttpError 400 ''No photo uploaded''), db)
                    | Some filename \<Rightarrow>
                        let photoUrl = ''/uploads/customers/'' @ filename
                        in (Inr photoUrl,
                            updateCustomerSession db sid
                              (\<lambda>s. s\<lparr>cs_photoUrl := Some photoUrl\<rparr>)))))"

subsection \<open>\<^verbatim>\<open>POST /api/tryon\<close>\<close>

record TryOnReply =
  tr_resultImageUrl :: string
  tr_message :: "string option"

text \<open>
  \<open>apiKey\<close> is \<^verbatim>\<open>process.env.GEMINI_API_KEY\<close>; \<open>generateTryOnImage\<close> is the call into
  \<^verbatim>\<open>server/gemini.ts\<close>, \<open>None\<close> when it throws; \<open>stamp\<close> is the text of
  \<^verbatim>\<open>${Date.now()}-${Math.round(Math.random() * 1e9)}\<close> in the result's file name;
  \<open>maxCount\<close> is the largest value of the counter column. When the increment throws,
  the handler's \<^verbatim>\<open>catch\<close> answers 500; the history row written before it stays.
\<close>

definition tryon ::
  "int \<Rightarrow> string option \<Rightarrow> (string \<Rightarrow> string \<Rightarrow> string \<Rightarrow> string option) \<Rightarrow> string \<Rightarrow>
   database \<Rightarrow> int \<Rightarrow> string option \<Rightarrow> string option \<Rightarrow> (HttpError + TryOnReply) \<times> database" where
  "tryon maxCount apiKey generateTryOnImage stamp db now sessionId clothingItemId =
     (if \<not> truthy sessionId \<or> \<not> truthy clothingItemId
      then (Inl (HttpError 400 ''Session ID and clothing item ID required''), db)
      else
        (case (sessionId, clothingItemId) of
           (Some sid, Some cid) \<Rightarrow>
             (case getCustomerSession db sid of
                None \<Rightarrow> (Inl (HttpError 401 ''Session expired''), db)
              | Some session \<Rightarrow>
                  if cs_expiresAt session < now
                  then (Inl (HttpError 401 ''Session expired''), db)
                  else if \<not> truthy (cs_photoUrl session)
                  then (Inl (HttpError 400 ''Please upload a photo first''), db)
                  else
                    (case getClothingItem db cid of
                       None \<Rightarrow> (Inl (HttpError 404 ''Clothing item not found''), db)
                     | Some clothingItem \<Rightarrow>
                         if ci_storeId clothingItem \<noteq> cs_storeId session
                         then (Inl (HttpError 404 ''Clothing item not found''), db)
                         else if \<not> truthy apiKey
                         then
                           let mockResultUrl = ci_imageUrl clothingItem;
                               db1 = createTryOnHistory db
                                       \<lparr>th_customerSessionId = cs_id session,
                                        th_clothingItemId = ci_id clothingItem,
                                        th_resultImageUrl = mockResultUrl\<rparr>
                           in
                             (case incrementTryOnCount maxCount db1 (ci_id clothingItem) of
                                None \<Rightarrow>
                                  (Inl (HttpError 500 ''Failed to generate try-on image''), db1)
                              | Some db2 \<Rightarrow>
                                  let db3 = createUsageLog db2
                                              \<lparr>ul_storeId = cs_storeId session,
                                               ul_action = ''try_on'',
                                               ul_metadata =
                                                 [(''clothingItemId'', JString cid),
                                                  (''customerSessionId'',
                                                   JString (cs_id session)),
                                                  (''mock'', JBool True)]\<rparr>
                                  in (Inr \<lparr>tr_resultImageUrl = mockResultUrl,
                                           tr_message =
                                             Some ''Demo mode - Gemini API key not configured''\<rparr>,
                                      db3))
                         else
                           let userPhotoPath =
                                 ''.'' @ (case cs_photoUrl session of None \<Rightarrow> [] | Some p \<Rightarrow> p);
                               clothingImagePath = ''.'' @ ci_imageUrl clothingItem;
                               outputFilename = ''result-'' @ stamp @ ''.png'';
                               outputPath = ''./uploads/results/'' @ outputFilename
                           in
                             (case generateTryOnImage userPhotoPath clothingImagePath outputPath of
                                None \<Rightarrow>
                                  (Inl (HttpError 500 ''Failed to generate try-on image''), db)
                              | Some resultPath \<Rightarrow>
                                  let resultImageUrl = ''/uploads/results/'' @ outputFilename;
                                      db1 = createTryOnHistory db
                                              \<lparr>th_customerSessionId = cs_id session,
                                               th_clothingItemId = ci_id clothingItem,
                                               th_resultImageUrl = resultImageUrl\<rparr>
                                  in
                                    (case incrementTryOnCount maxCount db1 (ci_id clothingItem) of
                                       None \<Rightarrow>
                                         (Inl (HttpError 500 ''Failed to generate try-on image''),
                                          db1)
                                     | Some db2 \<Rightarrow>
                                         let db3 = createUsageLog db2
                                                     \<lparr>ul_storeId = cs_storeId session,
                                                      ul_action = ''try_on'',
                                                      ul_metadata =
                                                        [(''clothingItemId'', JString cid),
                                                         (''customerSessionId'',
                                                          JString (cs_id session))]\<rparr>
                                         in (Inr \<lparr>tr_resultImageUrl = resultImageUrl,
                                                  tr_message = None\<rparr>, db3)))))
         | _ \<Rightarrow> (Inl (HttpError 400 ''Session ID and clothing item ID required''), db)))"

section \<open>Sample data\<close>

text \<open>
  A small database on which the theorems below are run: an active store \<open>s1\<close> and a
  closed store \<open>s2\<close>, one grant per store expiring at instant 3600000, a customer
  session with a photo and one without, an item of each store, and three users (one
  deactivated). \<open>sample_compare\<close> and \<open>sample_hash\<close> stand for bcrypt on this data and
  \<open>sample_sign\<close> for \<^verbatim>\<open>jwt.sign\<close>.
\<close>

definition sample_db :: database where
  "sample_db =
     \<lparr>users =
        [\<lparr>u_id = ''u1'', u_email = ''owner@example.com'', u_password = ''bcrypt:admin123'',
          u_role = ''company_owner'', u_storeId = None, u_mustResetPassword = False,
          u_isActive = True\<rparr>,
         \<lparr>u_id = ''u2'', u_email = ''manager@example.com'', u_password = ''bcrypt:welcome1'',
          u_role = ''store_manager'', u_storeId = Some ''s1'', u_mustResetPassword = True,
          u_isActive = True\<rparr>,
         \<lparr>u_id = ''u3'', u_email = ''former@example.com'', u_password = ''bcrypt:letmein'',
          u_role = ''store_manager'', u_storeId = Some ''s2'', u_mustResetPassword = False,
          u_isActive = False\<rparr>],
      stores =
        [\<lparr>st_id = ''s1'', st_name = ''Main Street'', st_description = None,
          st_isActive = True\<rparr>,
         \<lparr>st_id = ''s2'', st_name = ''Harbour'', st_description = None,
          st_isActive = False\<rparr>],
      clothingItems =
        [\<lparr>ci_id = ''i1'', ci_storeId = ''s1'', ci_name = ''Denim jacket'',
          ci_category = ''jackets'', ci_barcode = None,
          ci_imageUrl = ''/uploads/clothing/jacket.png'', ci_isAvailable = True,
          ci_tryOnCount = 4\<rparr>,
         \<lparr>ci_id = ''i2'', ci_storeId = ''s2'', ci_name = ''Rain coat'',
          ci_category = ''jackets'', ci_barcode = None,
          ci_imageUrl = ''/uploads/clothing/coat.png'', ci_isAvailable = True,
          ci_tryOnCount = 0\<rparr>],
      qrSessions =
        [\<lparr>qr_id = ''q1'', qr_storeId = ''s1'', qr_token = ''tok1'', qr_expiresAt = 3600000\<rparr>,
         \<lparr>qr_id = ''q2'', qr_storeId = ''s2'', qr_token = ''tok2'', qr_expiresAt = 3600000\<rparr>],
      customerSessions =
        [\<lparr>cs_id = ''c1'', cs_qrSessionId = ''q1'', cs_storeId = ''s1'',
          cs_expiresAt = 3600000, cs_photoUrl = Some ''/uploads/customers/me.png''\<rparr>,
         \<lparr>cs_id = ''c2'', cs_qrSessionId = ''q1'', cs_storeId = ''s1'',
          cs_expiresAt = 3600000, cs_photoUrl = None\<rparr>],
      tryOnHistory = [],
      usageLogs = []\<rparr>"

definition sample_hash :: "string \<Rightarrow> string" where
  "sample_hash p = ''bcrypt:'' @ p"

definition sample_compare :: "string \<Rightarrow> string \<Rightarrow> bool" where
  "sample_compare p h = (h = ''bcrypt:'' @ p)"

definition sample_sign :: "JwtClaims \<Rightarrow> string" where
  "sample_sign c = ''jwt:'' @ jc_id c"

section \<open>Lookups\<close>

lemmas storage_defs =
  getUser_def getUserByEmail_def updateUser_def getStore_def getClothingItem_def
  incrementTryOnCount_def getQrSessionByToken_def createQrSession_def getCustomerSession_def
  createCustomerSession_def updateCustomerSession_def createTryOnHistory_def
  createUsageLog_def truthy_def

lemma find_key_unique:
  "distinct (map f xs) \<Longrightarrow>
   (find (\<lambda>x. f x = k \<and> P x) xs = Some q) = (q \<in> set xs \<and> f q = k \<and> P q)"
proof (induction xs)
  case Nil
  then show ?case by simp
next
  case (Cons x xs)
  then have IH: "(find (\<lambda>x. f x = k \<and> P x) xs = Some q) = (q \<in> set xs \<and> f q = k \<and> P q)"
    by simp
  show ?case
  proof (cases "f x = k")
    case True
    from Cons.prems have "f x \<notin> f ` set xs" by simp
    with True have "\<forall>y\<in>set xs. f y \<noteq> k" by blast
    with True IH show ?thesis by auto
  next
    case False
    with IH show ?thesis by auto
  qed
qed

lemma find_holds: "find P xs = Some x \<Longrightarrow> P x \<and> x \<in> set xs"
  by (induction xs) (auto split: if_splits)

lemma qr_validate_cases:
  "qr_validate db now newId tok =
     (case getQrSessionByToken db now tok of
        None \<Rightarrow> (Inl (HttpError 404 ''Invalid or expired session''), db)
      | Some q \<Rightarrow>
          (case getStore db (qr_storeId q) of
             None \<Rightarrow> (Inl (HttpError 404 ''Store not available''), db)
           | Some s \<Rightarrow>
               if st_isActive s
               then (Inr \<lparr>sv_sessionId = newId, sv_storeId = st_id s, sv_storeName = st_name s,
                          sv_expiresAt = qr_expiresAt q\<rparr>,
                     db\<lparr>customerSessions := customerSessions db @
                           [\<lparr>cs_id = newId, cs_qrSessionId = qr_id q, cs_storeId = qr_storeId q,
                             cs_expiresAt = qr_expiresAt q, cs_photoUrl = None\<rparr>],
                        usageLogs := usageLogs db @
                           [\<lparr>ul_storeId = qr_storeId q, ul_action = ''session_created'',
                             ul_metadata = [(''customerSessionId'', JString newId)]\<rparr>]\<rparr>)
               else (Inl (HttpError 404 ''Store not available''), db)))"
  by (simp add: qr_validate_def createCustomerSession_def createUsageLog_def Let_def
      split: option.splits)

section \<open>The session validator\<close>

text \<open>
  C1. For every QR token, validation succeeds, creating a customer session, if and only
  if a grant with that token exists, \<open>now < expiresAt\<close> holds for it, and the store that
  owns it exists and is active. In every other case the reply is a rejection (status
  404) and nothing is written. Tokens identify grants and ids identify stores: the two
  premises say so.
\<close>

theorem qr_validate_succeeds_iff:
  assumes "distinct (map qr_token (qrSessions db))"
    and "distinct (map st_id (stores db))"
  shows "((\<exists>view db'. qr_validate db now newId tok = (Inr view, db')) \<longleftrightarrow>
            (\<exists>q\<in>set (qrSessions db). qr_token q = tok \<and> now < qr_expiresAt q \<and>
               (\<exists>s\<in>set (stores db). st_id s = qr_storeId q \<and> st_isActive s))) \<and>
         ((\<exists>view db'. qr_validate db now newId tok = (Inr view, db') \<and>
              sv_sessionId view = newId \<and>
              length (customerSessions db') = length (customerSessions db) + 1) \<or>
          (\<exists>msg. qr_validate db now newId tok = (Inl (HttpError 404 msg), db)))"
proof -
  let ?valid = "\<exists>q\<in>set (qrSessions db). qr_token q = tok \<and> now < qr_expiresAt q \<and>
               (\<exists>s\<in>set (stores db). st_id s = qr_storeId q \<and> st_isActive s)"
  have q_iff: "\<And>q. (getQrSessionByToken db now tok = Some q) =
                 (q \<in> set (qrSessions db) \<and> qr_token q = tok \<and> now < qr_expiresAt q)"
    unfolding getQrSessionByToken_def using assms(1) by (rule find_key_unique)
  have s_iff: "\<And>i s. (getStore db i = Some s) = (s \<in> set (stores db) \<and> st_id s = i)"
    unfolding getStore_def using find_key_unique [OF assms(2), where P = "\<lambda>_. True"] by simp
  show ?thesis
  proof (cases "getQrSessionByToken db now tok")
    case None
    then have "\<not> ?valid" using q_iff by (metis option.distinct(1))
    then show ?thesis using None by (simp add: qr_validate_cases)
  next
    case (Some q)
    note q = this
    show ?thesis
    proof (cases "getStore db (qr_storeId q)")
      case None
      have "\<not> ?valid"
      proof
        assume ?valid
        then obtain q' s where "q' \<in> set (qrSessions db)" "qr_token q' = tok"
          "now < qr_expiresAt q'" "s \<in> set (stores db)" "st_id s = qr_storeId q'" by blast
        then have "getQrSessionByToken db now tok = Some q'" "getStore db (qr_storeId q') = Some s"
          using q_iff s_iff by auto
        then show False using q None by simp
      qed
      then show ?thesis using q None by (simp add: qr_validate_cases)
    next
      case (Some s)
      show ?thesis
      proof (cases "st_isActive s")
        case True
        have ?valid using q Some True q_iff s_iff by blast
        then show ?thesis using q Some True by (simp add: qr_validate_cases)
      next
        case False
        have "\<not> ?valid"
        proof
          assume ?valid
          then obtain q' s' where "q' \<in> set (qrSessions db)" "qr_token q' = tok"
            "now < qr_expiresAt q'" "s' \<in> set (stores db)" "st_id s' = qr_storeId q'"
            "st_isActive s'" by blast
          then have "getQrSessionByToken db now tok = Some q'"
            "getStore db (qr_storeId q') = Some s'"
            using q_iff s_iff by auto
          then show False using q Some False \<open>st_isActive s'\<close> by simp
        qed
        then show ?thesis using q Some False by (simp add: qr_validate_cases)
      qed
    qed
  qed
qed

theorem qr_validate_succeeds_iff_witness:
  "distinct (map qr_token (qrSessions sample_db)) \<and>
   distinct (map st_id (stores sample_db)) \<and>
   (\<exists>view db'. qr_validate sample_db 1000 ''c3'' ''tok1'' = (Inr view, db') \<and>
      sv_sessionId view = ''c3'' \<and>
      length (customerSessions db') = length (customerSessions sample_db) + 1) \<and>
   (\<exists>msg. qr_validate sample_db 3600000 ''c3'' ''tok1'' = (Inl (HttpError 404 msg), sample_db)) \<and>
   (\<exists>msg. qr_validate sample_db 1000 ''c3'' ''tok2'' = (Inl (HttpError 404 msg), sample_db)) \<and>
   (\<exists>msg. qr_validate sample_db 1000 ''c3'' ''nope'' = (Inl (HttpError 404 msg), sample_db))"
proof -
  have d1: "distinct (map qr_token (qrSessions sample_db))" by (simp add: sample_db_def)
  have d2: "distinct (map st_id (stores sample_db))" by (simp add: sample_db_def)
  have ok: "\<exists>q\<in>set (qrSessions sample_db). qr_token q = ''tok1'' \<and> 1000 < qr_expiresAt q \<and>
              (\<exists>s\<in>set (stores sample_db). st_id s = qr_storeId q \<and> st_isActive s)"
    by (simp add: sample_db_def)
  have late: "\<not> (\<exists>q\<in>set (qrSessions sample_db). qr_token q = ''tok1'' \<and> 3600000 < qr_expiresAt q \<and>
              (\<exists>s\<in>set (stores sample_db). st_id s = qr_storeId q \<and> st_isActive s))"
    by (simp add: sample_db_def)
  have closed: "\<not> (\<exists>q\<in>set (qrSessions sample_db). qr_token q = ''tok2'' \<and> 1000 < qr_expiresAt q \<and>
              (\<exists>s\<in>set (stores sample_db). st_id s = qr_storeId q \<and> st_isActive s))"
    by (simp add: sample_db_def)
  have unknown: "\<not> (\<exists>q\<in>set (qrSessions sample_db). qr_token q = ''nope'' \<and> 1000 < qr_expiresAt q \<and>
              (\<exists>s\<in>set (stores sample_db). st_id s = qr_storeId q \<and> st_isActive s))"
    by (simp add: sample_db_def)
  note inst = qr_validate_succeeds_iff [OF d1 d2]
  have a: "\<exists>view db'. qr_validate sample_db 1000 ''c3'' ''tok1'' = (Inr view, db') \<and>
      sv_sessionId view = ''c3'' \<and>
      length (customerSessions db') = length (customerSessions sample_db) + 1"
    using inst [of 1000 "''c3''" "''tok1''"] ok by fastforce
  have b: "\<exists>msg. qr_validate sample_db 3600000 ''c3'' ''tok1'' = (Inl (HttpError 404 msg), sample_db)"
    using inst [of 3600000 "''c3''" "''tok1''"] late by fastforce
  have c: "\<exists>msg. qr_validate sample_db 1000 ''c3'' ''tok2'' = (Inl (HttpError 404 msg), sample_db)"
    using inst [of 1000 "''c3''" "''tok2''"] closed by fastforce
  have d: "\<exists>msg. qr_validate sample_db 1000 ''c3'' ''nope'' = (Inl (HttpError 404 msg), sample_db)"
    using inst [of 1000 "''c3''" "''nope''"] unknown by fastforce
  from d1 d2 a b c d show ?thesis by blast
qed

lemma find_later:
  fixes q :: QrSession
  assumes "find (\<lambda>q. qr_token q = tok \<and> t0 < qr_expiresAt q) xs = Some q"
    and "t0 \<le> t" and "t < qr_expiresAt q"
  shows "find (\<lambda>q. qr_token q = tok \<and> t < qr_expiresAt q) xs = Some q"
  using assms(1)
proof (induction xs)
  case Nil
  then show ?case by simp
next
  case (Cons x xs)
  show ?case
  proof (cases "qr_token x = tok \<and> t0 < qr_expiresAt x")
    case True
    with Cons.prems have "x = q" by simp
    with True assms(3) show ?thesis by simp
  next
    case False
    with assms(2) have later: "\<not> (qr_token x = tok \<and> t < qr_expiresAt x)" by auto
    from False Cons.prems have "find (\<lambda>q. qr_token q = tok \<and> t0 < qr_expiresAt q) xs = Some q"
      by (auto split: if_splits)
    then have "find (\<lambda>q. qr_token q = tok \<and> t < qr_expiresAt q) xs = Some q"
      by (rule Cons.IH)
    with later show ?thesis by auto
  qed
qed

lemma getQrSessionByToken_later:
  "getQrSessionByToken db t0 tok = Some q \<Longrightarrow> t0 \<le> t \<Longrightarrow> t < qr_expiresAt q \<Longrightarrow>
   qrSessions db' = qrSessions db \<Longrightarrow> getQrSessionByToken db' t tok = Some q"
  unfolding getQrSessionByToken_def using find_later [of tok t0 "qrSessions db" q t] by simp

lemma qr_validate_success:
  assumes "getQrSessionByToken db now tok = Some q"
    and "getStore db (qr_storeId q) = Some s"
    and "st_isActive s"
  shows "qr_validate db now newId tok =
           (Inr \<lparr>sv_sessionId = newId, sv_storeId = st_id s, sv_storeName = st_name s,
                  sv_expiresAt = qr_expiresAt q\<rparr>,
            db\<lparr>customerSessions := customerSessions db @
                  [\<lparr>cs_id = newId, cs_qrSessionId = qr_id q, cs_storeId = qr_storeId q,
                    cs_expiresAt = qr_expiresAt q, cs_photoUrl = None\<rparr>],
               usageLogs := usageLogs db @
                  [\<lparr>ul_storeId = qr_storeId q, ul_action = ''session_created'',
                    ul_metadata = [(''customerSessionId'', JString newId)]\<rparr>]\<rparr>)"
  using assms by (simp add: qr_validate_cases)

lemma find_snoc:
  "find P (xs @ [y]) = (case find P xs of None \<Rightarrow> (if P y then Some y else None) | Some x \<Rightarrow> Some x)"
  by (induction xs) auto

text \<open>
  C7. A successful validation does not revoke the token. From a database in which the
  token resolves to a grant of an active store, any run of redemptions made before the
  grant expires succeeds call by call, however long the run: each call appends one
  customer session carrying its own generated key, and the table of grants is left as
  it was (no row is marked as used).
\<close>

theorem qr_validate_does_not_revoke:
  assumes "getQrSessionByToken db t0 tok = Some q"
    and "getStore db (qr_storeId q) = Some s"
    and "st_isActive s"
    and "\<forall>(t, newId)\<in>set calls. t0 \<le> t \<and> t < qr_expiresAt q"
  shows "fst (qr_validate_all db tok calls) =
           map (\<lambda>(t, newId). Inr \<lparr>sv_sessionId = newId, sv_storeId = st_id s,
                                    sv_storeName = st_name s,
                                    sv_expiresAt = qr_expiresAt q\<rparr>) calls \<and>
         customerSessions (snd (qr_validate_all db tok calls)) =
           customerSessions db @
           map (\<lambda>(t, newId). \<lparr>cs_id = newId, cs_qrSessionId = qr_id q,
                                cs_storeId = qr_storeId q, cs_expiresAt = qr_expiresAt q,
                                cs_photoUrl = None\<rparr>) calls \<and>
         qrSessions (snd (qr_validate_all db tok calls)) = qrSessions db"
  using assms
proof (induction calls arbitrary: db)
  case Nil
  then show ?case by simp
next
  case (Cons c calls)
  obtain t newId where c: "c = (t, newId)" by (cases c)
  from Cons.prems(4) c have t: "t0 \<le> t" "t < qr_expiresAt q" by auto
  let ?db1 = "db\<lparr>customerSessions := customerSessions db @
                  [\<lparr>cs_id = newId, cs_qrSessionId = qr_id q, cs_storeId = qr_storeId q,
                    cs_expiresAt = qr_expiresAt q, cs_photoUrl = None\<rparr>],
               usageLogs := usageLogs db @
                  [\<lparr>ul_storeId = qr_storeId q, ul_action = ''session_created'',
                    ul_metadata = [(''customerSessionId'', JString newId)]\<rparr>]\<rparr>"
  have "getQrSessionByToken db t tok = Some q"
    using getQrSessionByToken_later [OF Cons.prems(1) t, of db] by simp
  then have step: "qr_validate db t newId tok =
      (Inr \<lparr>sv_sessionId = newId, sv_storeId = st_id s, sv_storeName = st_name s,
             sv_expiresAt = qr_expiresAt q\<rparr>, ?db1)"
    using Cons.prems(2,3) by (rule qr_validate_success)
  have q1: "getQrSessionByToken ?db1 t0 tok = Some q"
    using Cons.prems(1) by (simp add: getQrSessionByToken_def)
  have s1: "getStore ?db1 (qr_storeId q) = Some s"
    using Cons.prems(2) by (simp add: getStore_def)
  have rest: "\<forall>(t, newId)\<in>set calls. t0 \<le> t \<and> t < qr_expiresAt q"
    using Cons.prems(4) by simp
  note IH = Cons.IH [OF q1 s1 Cons.prems(3) rest]
  show ?case using IH step c by (simp add: split_beta)
qed

theorem qr_validate_does_not_revoke_witness:
  "getQrSessionByToken sample_db 1000 ''tok1'' =
     Some \<lparr>qr_id = ''q1'', qr_storeId = ''s1'', qr_token = ''tok1'', qr_expiresAt = 3600000\<rparr> \<and>
   map cs_id (customerSessions (snd (qr_validate_all sample_db ''tok1''
       [(1000, ''c3''), (2000, ''c4''), (3599999, ''c5'')]))) =
     [''c1'', ''c2'', ''c3'', ''c4'', ''c5''] \<and>
   map sv_sessionId (map projr (fst (qr_validate_all sample_db ''tok1''
       [(1000, ''c3''), (2000, ''c4''), (3599999, ''c5'')]))) = [''c3'', ''c4'', ''c5''] \<and>
   qrSessions (snd (qr_validate_all sample_db ''tok1''
       [(1000, ''c3''), (2000, ''c4''), (3599999, ''c5'')])) = qrSessions sample_db"
proof -
  let ?q = "\<lparr>qr_id = ''q1'', qr_storeId = ''s1'', qr_token = ''tok1'', qr_expiresAt = 3600000\<rparr>"
  let ?s = "\<lparr>st_id = ''s1'', st_name = ''Main Street'', st_description = None,
             st_isActive = True\<rparr>"
  let ?calls = "[(1000, ''c3''), (2000, ''c4''), (3599999, ''c5'')] :: (int \<times> string) list"
  have q: "getQrSessionByToken sample_db 1000 ''tok1'' = Some ?q"
    by (simp add: sample_db_def getQrSessionByToken_def)
  have s: "getStore sample_db (qr_storeId ?q) = Some ?s"
    by (simp add: sample_db_def getStore_def)
  have a: "st_isActive ?s" by simp
  have c: "\<forall>(t, newId)\<in>set ?calls. 1000 \<le> t \<and> t < qr_expiresAt ?q" by simp
  from qr_validate_does_not_revoke [OF q s a c] q show ?thesis
    by (simp add: sample_db_def)
qed

section \<open>Issuing and redeeming\<close>

text \<open>
  C4. Round trip. A manager of an active store issues a grant at time \<open>t0\<close> with a
  fresh token; redeeming that token at any time \<open>t1\<close> before the grant expires
  returns a customer session whose \<open>expiresAt\<close> is the grant's own, \<open>t0\<close> plus one
  hour, whatever \<open>t1\<close> is. The stored customer session carries the same instant.
\<close>

theorem issue_then_validate_roundtrip:
  assumes "jc_role user = ''store_manager''"
    and "jc_storeId user = Some storeId"
    and "storeId \<noteq> []"
    and "getStore db storeId = Some store"
    and "st_isActive store"
    and "tok \<notin> qr_token ` set (qrSessions db)"
    and "t1 < t0 + 3600000"
  shows "\<exists>db1 db2.
           qr_generate toDataURL db t0 qrId tok (Verified user) protocol host =
             (Inr \<lparr>qg_qrCode = toDataURL (protocol @ ''://'' @ host @ ''/?session='' @ tok),
                    qg_token = tok, qg_expiresAt = t0 + 3600000\<rparr>, db1) \<and>
           getQrSessionByToken db1 t1 tok =
             Some \<lparr>qr_id = qrId, qr_storeId = storeId, qr_token = tok,
                   qr_expiresAt = t0 + 3600000\<rparr> \<and>
           qr_validate db1 t1 csId tok =
             (Inr \<lparr>sv_sessionId = csId, sv_storeId = storeId, sv_storeName = st_name store,
                    sv_expiresAt = t0 + 3600000\<rparr>, db2) \<and>
           customerSessions db2 =
             customerSessions db @
             [\<lparr>cs_id = csId, cs_qrSessionId = qrId, cs_storeId = storeId,
               cs_expiresAt = t0 + 3600000, cs_photoUrl = None\<rparr>]"
proof -
  let ?q = "\<lparr>qr_id = qrId, qr_storeId = storeId, qr_token = tok, qr_expiresAt = t0 + 3600000\<rparr>"
  let ?db1 = "db\<lparr>qrSessions := qrSessions db @ [?q],
                 usageLogs := usageLogs db @
                   [\<lparr>ul_storeId = storeId, ul_action = ''qr_generated'',
                     ul_metadata = [(''sessionId'', JString qrId)]\<rparr>]\<rparr>"
  have gen: "qr_generate toDataURL db t0 qrId tok (Verified user) protocol host =
             (Inr \<lparr>qg_qrCode = toDataURL (protocol @ ''://'' @ host @ ''/?session='' @ tok),
                    qg_token = tok, qg_expiresAt = t0 + 3600000\<rparr>, ?db1)"
    using assms(1-3)
    by (simp add: qr_generate_def authMiddleware_def managerOnlyMiddleware_def
        createQrSession_def createUsageLog_def Let_def)
  have none: "find (\<lambda>q. qr_token q = tok \<and> t1 < qr_expiresAt q) (qrSessions db) = None"
    using assms(6) by (auto simp: find_None_iff)
  have q: "getQrSessionByToken ?db1 t1 tok = Some ?q"
    using none assms(7) by (simp add: getQrSessionByToken_def find_snoc)
  have s: "getStore ?db1 (qr_storeId ?q) = Some store"
    using assms(4) by (simp add: getStore_def)
  have sid: "st_id store = storeId"
    using assms(4) find_holds [of "\<lambda>s. st_id s = storeId" "stores db" store]
    by (simp add: getStore_def)
  from qr_validate_success [OF q s assms(5), of csId] gen q sid show ?thesis by simp
qed

theorem issue_then_validate_roundtrip_witness:
  "qr_generate (\<lambda>url. ''qr:'' @ url) sample_db 5000 ''q3'' ''tok3''
      (Verified \<lparr>jc_id = ''u2'', jc_email = ''manager@example.com'',
                 jc_role = ''store_manager'', jc_storeId = Some ''s1''\<rparr>) ''https'' ''shop.example'' =
     (Inr \<lparr>qg_qrCode = ''qr:https://shop.example/?session=tok3'', qg_token = ''tok3'',
            qg_expiresAt = 3605000\<rparr>,
      sample_db\<lparr>qrSessions := qrSessions sample_db @
                   [\<lparr>qr_id = ''q3'', qr_storeId = ''s1'', qr_token = ''tok3'',
                     qr_expiresAt = 3605000\<rparr>],
                 usageLogs := [\<lparr>ul_storeId = ''s1'', ul_action = ''qr_generated'',
                                ul_metadata = [(''sessionId'', JString ''q3'')]\<rparr>]\<rparr>) \<and>
   fst (qr_validate
         (snd (qr_generate (\<lambda>url. ''qr:'' @ url) sample_db 5000 ''q3'' ''tok3''
                 (Verified \<lparr>jc_id = ''u2'', jc_email = ''manager@example.com'',
                            jc_role = ''store_manager'', jc_storeId = Some ''s1''\<rparr>)
                 ''https'' ''shop.example''))
         65000 ''c3'' ''tok3'') =
     Inr \<lparr>sv_sessionId = ''c3'', sv_storeId = ''s1'', sv_storeName = ''Main Street'',
           sv_expiresAt = 3605000\<rparr>"
proof -
  let ?user = "\<lparr>jc_id = ''u2'', jc_email = ''manager@example.com'',
                 jc_role = ''store_manager'', jc_storeId = Some ''s1''\<rparr>"
  let ?store = "\<lparr>st_id = ''s1'', st_name = ''Main Street'', st_description = None,
                 st_isActive = True\<rparr>"
  have h1: "jc_role ?user = ''store_manager''" by simp
  have h2: "jc_storeId ?user = Some ''s1''" by simp
  have h3: "''s1'' \<noteq> []" by simp
  have h4: "getStore sample_db ''s1'' = Some ?store" by (simp add: sample_db_def getStore_def)
  have h5: "st_isActive ?store" by simp
  have h6: "''tok3'' \<notin> qr_token ` set (qrSessions sample_db)" by (simp add: sample_db_def)
  have h7: "(65000::int) < 5000 + 3600000" by simp
  from issue_then_validate_roundtrip [OF h1 h2 h3 h4 h5 h6 h7,
      of "\<lambda>url. ''qr:'' @ url" "''q3''" "''https''" "''shop.example''" "''c3''"]
  obtain db1 db2 where
    g: "qr_generate (\<lambda>url. ''qr:'' @ url) sample_db 5000 ''q3'' ''tok3'' (Verified ?user)
          ''https'' ''shop.example'' =
        (Inr \<lparr>qg_qrCode = ''qr:'' @ (''https'' @ ''://'' @ ''shop.example'' @ ''/?session='' @ ''tok3''),
               qg_token = ''tok3'', qg_expiresAt = 5000 + 3600000\<rparr>, db1)"
    and v: "qr_validate db1 65000 ''c3'' ''tok3'' =
        (Inr \<lparr>sv_sessionId = ''c3'', sv_storeId = ''s1'', sv_storeName = st_name ?store,
               sv_expiresAt = 5000 + 3600000\<rparr>, db2)"
    by blast
  have d: "db1 = sample_db\<lparr>qrSessions := qrSessions sample_db @
                   [\<lparr>qr_id = ''q3'', qr_storeId = ''s1'', qr_token = ''tok3'',
                     qr_expiresAt = 3605000\<rparr>],
                 usageLogs := [\<lparr>ul_storeId = ''s1'', ul_action = ''qr_generated'',
                                ul_metadata = [(''sessionId'', JString ''q3'')]\<rparr>]\<rparr>"
    using g
    by (simp add: qr_generate_def authMiddleware_def managerOnlyMiddleware_def
        createQrSession_def createUsageLog_def Let_def sample_db_def)
  from g v d show ?thesis by simp
qed

section \<open>The try-on request\<close>

lemma truthy_simps:
  "truthy None = False" "truthy (Some s) = (s \<noteq> [])"
  by (simp_all add: truthy_def)

lemma find_map_same:
  "(\<And>x. P (f x) = P x) \<Longrightarrow> find P (map f xs) = map_option f (find P xs)"
  by (induction xs) auto

lemma getCustomerSession_id: "getCustomerSession db sid = Some session \<Longrightarrow> cs_id session = sid"
  using find_holds [of "\<lambda>s. cs_id s = sid" "customerSessions db" session]
  by (simp add: getCustomerSession_def)

lemma getClothingItem_id: "getClothingItem db cid = Some item \<Longrightarrow> ci_id item = cid"
  using find_holds [of "\<lambda>c. ci_id c = cid" "clothingItems db" item]
  by (simp add: getClothingItem_def)

text \<open>
  The checks of the handler up to the item's store, for a request that carries both
  ids. Past them the lemma leaves the handler as it is.
\<close>

lemma tryon_session_gate:
  assumes "sid \<noteq> []" and "cid \<noteq> []"
  shows "tryon maxCount apiKey gen stamp db now (Some sid) (Some cid) =
     (case getCustomerSession db sid of
        None \<Rightarrow> (Inl (HttpError 401 ''Session expired''), db)
      | Some session \<Rightarrow>
          if cs_expiresAt session < now then (Inl (HttpError 401 ''Session expired''), db)
          else if \<not> truthy (cs_photoUrl session)
          then (Inl (HttpError 400 ''Please upload a photo first''), db)
          else
            (case getClothingItem db cid of
               None \<Rightarrow> (Inl (HttpError 404 ''Clothing item not found''), db)
             | Some item \<Rightarrow>
                 if ci_storeId item \<noteq> cs_storeId session
                 then (Inl (HttpError 404 ''Clothing item not found''), db)
                 else tryon maxCount apiKey gen stamp db now (Some sid) (Some cid)))"
  using assms by (simp add: tryon_def truthy_simps split: option.splits)

text \<open>
  C6. For every live customer session without an attached photo, a try-on request
  fails with status 400, "Please upload a photo first", and the database is returned
  as it was: no history row, no counter increment, no audit entry.
\<close>

theorem tryon_no_photo:
  assumes "getCustomerSession db sid = Some session"
    and "now < cs_expiresAt session"
    and "\<not> truthy (cs_photoUrl session)"
    and "sid \<noteq> []" and "cid \<noteq> []"
  shows "tryon maxCount apiKey gen stamp db now (Some sid) (Some cid) =
           (Inl (HttpError 400 ''Please upload a photo first''), db)"
  using assms by (simp add: tryon_session_gate)

theorem tryon_no_photo_witness:
  "getCustomerSession sample_db ''c2'' =
     Some \<lparr>cs_id = ''c2'', cs_qrSessionId = ''q1'', cs_storeId = ''s1'',
           cs_expiresAt = 3600000, cs_photoUrl = None\<rparr> \<and>
   tryon 2147483647 None (\<lambda>_ _ _. None) ''1000-7'' sample_db 1000 (Some ''c2'') (Some ''i1'') =
     (Inl (HttpError 400 ''Please upload a photo first''), sample_db)"
proof -
  let ?s = "\<lparr>cs_id = ''c2'', cs_qrSessionId = ''q1'', cs_storeId = ''s1'',
             cs_expiresAt = 3600000, cs_photoUrl = None\<rparr>"
  have h1: "getCustomerSession sample_db ''c2'' = Some ?s"
    by (simp add: sample_db_def getCustomerSession_def)
  have h2: "1000 < cs_expiresAt ?s" by simp
  have h3: "\<not> truthy (cs_photoUrl ?s)" by (simp add: truthy_def)
  have h4: "''c2'' \<noteq> []" and h5: "''i1'' \<noteq> []" by simp_all
  from tryon_no_photo [OF h1 h2 h3 h4 h5] h1 show ?thesis by simp
qed

text \<open>
  C3. For every live customer session with a photo: a try-on request for an item of
  another store gets status 404, "Clothing item not found", the very reply given when
  no item has that id, and the database is returned as it was.
\<close>

theorem tryon_cross_tenant_not_found:
  assumes "getCustomerSession db sid = Some session"
    and "now < cs_expiresAt session"
    and "truthy (cs_photoUrl session)"
    and "sid \<noteq> []" and "cid \<noteq> []"
    and "getClothingItem db cid = None \<or>
         (\<exists>item. getClothingItem db cid = Some item \<and> ci_storeId item \<noteq> cs_storeId session)"
  shows "tryon maxCount apiKey gen stamp db now (Some sid) (Some cid) =
           (Inl (HttpError 404 ''Clothing item not found''), db)"
proof -
  from assms(2) have live: "\<not> cs_expiresAt session < now" by simp
  from assms(6) show ?thesis
  proof
    assume "getClothingItem db cid = None"
    with assms(1,3,4,5) live show ?thesis by (simp add: tryon_session_gate)
  next
    assume "\<exists>item. getClothingItem db cid = Some item \<and> ci_storeId item \<noteq> cs_storeId session"
    then obtain item where "getClothingItem db cid = Some item"
      "ci_storeId item \<noteq> cs_storeId session" by blast
    with assms(1,3,4,5) live show ?thesis by (simp add: tryon_session_gate)
  qed
qed

theorem tryon_cross_tenant_not_found_witness:
  "getClothingItem sample_db ''i2'' =
     Some \<lparr>ci_id = ''i2'', ci_storeId = ''s2'', ci_name = ''Rain coat'',
           ci_category = ''jackets'', ci_barcode = None,
           ci_imageUrl = ''/uploads/clothing/coat.png'', ci_isAvailable = True,
           ci_tryOnCount = 0\<rparr> \<and>
   getClothingItem sample_db ''i9'' = None \<and>
   tryon 2147483647 None (\<lambda>_ _ _. None) ''1000-7'' sample_db 1000 (Some ''c1'') (Some ''i2'') =
     (Inl (HttpError 404 ''Clothing item not found''), sample_db) \<and>
   tryon 2147483647 None (\<lambda>_ _ _. None) ''1000-7'' sample_db 1000 (Some ''c1'') (Some ''i9'') =
     (Inl (HttpError 404 ''Clothing item not found''), sample_db)"
proof -
  let ?s = "\<lparr>cs_id = ''c1'', cs_qrSessionId = ''q1'', cs_storeId = ''s1'',
             cs_expiresAt = 3600000, cs_photoUrl = Some ''/uploads/customers/me.png''\<rparr>"
  let ?i = "\<lparr>ci_id = ''i2'', ci_storeId = ''s2'', ci_name = ''Rain coat'',
           ci_category = ''jackets'', ci_barcode = None,
           ci_imageUrl = ''/uploads/clothing/coat.png'', ci_isAvailable = True,
           ci_tryOnCount = 0\<rparr>"
  have h1: "getCustomerSession sample_db ''c1'' = Some ?s"
    by (simp add: sample_db_def getCustomerSession_def)
  have h2: "1000 < cs_expiresAt ?s" by simp
  have h3: "truthy (cs_photoUrl ?s)" by (simp add: truthy_def)
  have h4: "''c1'' \<noteq> []" and h5: "''i2'' \<noteq> []" and h5': "''i9'' \<noteq> []" by simp_all
  have other: "getClothingItem sample_db ''i2'' = Some ?i"
    by (simp add: sample_db_def getClothingItem_def)
  have absent: "getClothingItem sample_db ''i9'' = None"
    by (simp add: sample_db_def getClothingItem_def)
  have h6: "getClothingItem sample_db ''i2'' = None \<or>
         (\<exists>item. getClothingItem sample_db ''i2'' = Some item \<and> ci_storeId item \<noteq> cs_storeId ?s)"
    using other by simp
  have h6': "getClothingItem sample_db ''i9'' = None \<or>
         (\<exists>item. getClothingItem sample_db ''i9'' = Some item \<and> ci_storeId item \<noteq> cs_storeId ?s)"
    using absent by simp
  from tryon_cross_tenant_not_found [OF h1 h2 h3 h4 h5 h6]
    tryon_cross_tenant_not_found [OF h1 h2 h3 h4 h5' h6'] other absent
  show ?thesis by simp
qed

text \<open>
  C5. Degraded mode. For every live customer session with a photo and an item of the
  session's store whose counter is below the largest value of its column, when the AI
  credential is absent the reply carries the item's own image reference, and the
  request appends exactly one history row and one audit entry and adds one to the
  item's counter; every other item and table is untouched.
\<close>

theorem tryon_degraded_mode:
  assumes "getCustomerSession db sid = Some session"
    and "now < cs_expiresAt session"
    and "truthy (cs_photoUrl session)"
    and "sid \<noteq> []" and "cid \<noteq> []"
    and "getClothingItem db cid = Some item"
    and "ci_storeId item = cs_storeId session"
    and "\<not> truthy apiKey"
    and "\<forall>c\<in>set (clothingItems db). ci_id c = cid \<longrightarrow> ci_tryOnCount c < maxCount"
  shows "\<exists>db'. tryon maxCount apiKey gen stamp db now (Some sid) (Some cid) =
             (Inr \<lparr>tr_resultImageUrl = ci_imageUrl item,
                    tr_message = Some ''Demo mode - Gemini API key not configured''\<rparr>, db') \<and>
           tryOnHistory db' = tryOnHistory db @
             [\<lparr>th_customerSessionId = sid, th_clothingItemId = cid,
               th_resultImageUrl = ci_imageUrl item\<rparr>] \<and>
           clothingItems db' =
             map (\<lambda>c. if ci_id c = cid then c\<lparr>ci_tryOnCount := ci_tryOnCount c + 1\<rparr> else c)
                 (clothingItems db) \<and>
           getClothingItem db' cid = Some (item\<lparr>ci_tryOnCount := ci_tryOnCount item + 1\<rparr>) \<and>
           usageLogs db' = usageLogs db @
             [\<lparr>ul_storeId = cs_storeId session, ul_action = ''try_on'',
               ul_metadata = [(''clothingItemId'', JString cid),
                              (''customerSessionId'', JString sid),
                              (''mock'', JBool True)]\<rparr>] \<and>
           customerSessions db' = customerSessions db \<and> qrSessions db' = qrSessions db \<and>
           stores db' = stores db \<and> users db' = users db"
proof -
  let ?bump = "\<lambda>c. if ci_id c = cid then c\<lparr>ci_tryOnCount := ci_tryOnCount c + 1\<rparr> else c"
  let ?db' = "db\<lparr>tryOnHistory := tryOnHistory db @
                   [\<lparr>th_customerSessionId = sid, th_clothingItemId = cid,
                     th_resultImageUrl = ci_imageUrl item\<rparr>],
                 clothingItems := map ?bump (clothingItems db),
                 usageLogs := usageLogs db @
                   [\<lparr>ul_storeId = cs_storeId session, ul_action = ''try_on'',
                     ul_metadata = [(''clothingItemId'', JString cid),
                                    (''customerSessionId'', JString sid),
                                    (''mock'', JBool True)]\<rparr>]\<rparr>"
  have sid: "cs_id session = sid" using assms(1) by (rule getCustomerSession_id)
  have cid: "ci_id item = cid" using assms(6) by (rule getClothingItem_id)
  from assms(2) have live: "\<not> cs_expiresAt session < now" by simp
  from assms(9) have room:
    "\<not> list_ex (\<lambda>c. ci_id c = cid \<and> maxCount \<le> ci_tryOnCount c) (clothingItems db)"
    by (auto simp: list_ex_iff)
  have run: "tryon maxCount apiKey gen stamp db now (Some sid) (Some cid) =
             (Inr \<lparr>tr_resultImageUrl = ci_imageUrl item,
                    tr_message = Some ''Demo mode - Gemini API key not configured''\<rparr>, ?db')"
    using assms(1,3,4,5,6,7,8) live sid cid room
    by (simp add: tryon_def createTryOnHistory_def incrementTryOnCount_def createUsageLog_def
        Let_def truthy_simps)
  have "find (\<lambda>c. ci_id c = cid) (map ?bump (clothingItems db)) =
        map_option ?bump (find (\<lambda>c. ci_id c = cid) (clothingItems db))"
    by (rule find_map_same) simp
  then have item': "getClothingItem ?db' cid = Some (item\<lparr>ci_tryOnCount := ci_tryOnCount item + 1\<rparr>)"
    using assms(6) cid by (simp add: getClothingItem_def)
  from run item' show ?thesis by simp
qed

theorem tryon_degraded_mode_witness:
  "fst (tryon 2147483647 None (\<lambda>_ _ _. None) ''1000-7'' sample_db 1000 (Some ''c1'') (Some ''i1'')) =
     Inr \<lparr>tr_resultImageUrl = ''/uploads/clothing/jacket.png'',
           tr_message = Some ''Demo mode - Gemini API key not configured''\<rparr> \<and>
   tryOnHistory (snd (tryon 2147483647 None (\<lambda>_ _ _. None) ''1000-7'' sample_db 1000 (Some ''c1'')
       (Some ''i1''))) =
     [\<lparr>th_customerSessionId = ''c1'', th_clothingItemId = ''i1'',
       th_resultImageUrl = ''/uploads/clothing/jacket.png''\<rparr>] \<and>
   map ci_tryOnCount (clothingItems (snd (tryon 2147483647 None (\<lambda>_ _ _. None) ''1000-7'' sample_db 1000
       (Some ''c1'') (Some ''i1'')))) = [5, 0] \<and>
   map ul_action (usageLogs (snd (tryon 2147483647 None (\<lambda>_ _ _. None) ''1000-7'' sample_db 1000
       (Some ''c1'') (Some ''i1'')))) = [''try_on'']"
proof -
  let ?s = "\<lparr>cs_id = ''c1'', cs_qrSessionId = ''q1'', cs_storeId = ''s1'',
             cs_expiresAt = 3600000, cs_photoUrl = Some ''/uploads/customers/me.png''\<rparr>"
  let ?i = "\<lparr>ci_id = ''i1'', ci_storeId = ''s1'', ci_name = ''Denim jacket'',
          ci_category = ''jackets'', ci_barcode = None,
          ci_imageUrl = ''/uploads/clothing/jacket.png'', ci_isAvailable = True,
          ci_tryOnCount = 4\<rparr>"
  have h1: "getCustomerSession sample_db ''c1'' = Some ?s"
    by (simp add: sample_db_def getCustomerSession_def)
  have h2: "1000 < cs_expiresAt ?s" by simp
  have h3: "truthy (cs_photoUrl ?s)" by (simp add: truthy_def)
  have h4: "''c1'' \<noteq> []" and h5: "''i1'' \<noteq> []" by simp_all
  have h6: "getClothingItem sample_db ''i1'' = Some ?i"
    by (simp add: sample_db_def getClothingItem_def)
  have h7: "ci_storeId ?i = cs_storeId ?s" by simp
  have h8: "\<not> truthy None" by (simp add: truthy_def)
  have h9: "\<forall>c\<in>set (clothingItems sample_db). ci_id c = ''i1'' \<longrightarrow> ci_tryOnCount c < 2147483647"
    by (simp add: sample_db_def)
  from tryon_degraded_mode [OF h1 h2 h3 h4 h5 h6 h7 h8 h9, of "\<lambda>_ _ _. None" "''1000-7''"]
  obtain db' where
    r: "tryon 2147483647 None (\<lambda>_ _ _. None) ''1000-7'' sample_db 1000 (Some ''c1'') (Some ''i1'') =
          (Inr \<lparr>tr_resultImageUrl = ci_imageUrl ?i,
                 tr_message = Some ''Demo mode - Gemini API key not configured''\<rparr>, db')"
    and h: "tryOnHistory db' = tryOnHistory sample_db @
             [\<lparr>th_customerSessionId = ''c1'', th_clothingItemId = ''i1'',
               th_resultImageUrl = ci_imageUrl ?i\<rparr>]"
    and c: "clothingItems db' =
             map (\<lambda>c. if ci_id c = ''i1'' then c\<lparr>ci_tryOnCount := ci_tryOnCount c + 1\<rparr> else c)
                 (clothingItems sample_db)"
    and l: "usageLogs db' = usageLogs sample_db @
             [\<lparr>ul_storeId = cs_storeId ?s, ul_action = ''try_on'',
               ul_metadata = [(''clothingItemId'', JString ''i1''),
                              (''customerSessionId'', JString ''c1''),
                              (''mock'', JBool True)]\<rparr>]"
    by blast
  from r h c l show ?thesis by (simp add: sample_db_def)
qed

text \<open>
  When the item's counter already holds the column's largest value, the increment
  fails: the reply is status 500 and the history row written before it is all that
  the request leaves behind.
\<close>

lemma tryon_degraded_counter_full:
  assumes "getCustomerSession db sid = Some session"
    and "now < cs_expiresAt session"
    and "truthy (cs_photoUrl session)"
    and "sid \<noteq> []" and "cid \<noteq> []"
    and "getClothingItem db cid = Some item"
    and "ci_storeId item = cs_storeId session"
    and "\<not> truthy apiKey"
    and "maxCount \<le> ci_tryOnCount item"
  shows "tryon maxCount apiKey gen stamp db now (Some sid) (Some cid) =
           (Inl (HttpError 500 ''Failed to generate try-on image''),
            createTryOnHistory db
              \<lparr>th_customerSessionId = sid, th_clothingItemId = cid,
               th_resultImageUrl = ci_imageUrl item\<rparr>)"
proof -
  have sid: "cs_id session = sid" using assms(1) by (rule getCustomerSession_id)
  have cid: "ci_id item = cid" using assms(6) by (rule getClothingItem_id)
  from assms(2) have live: "\<not> cs_expiresAt session < now" by simp
  have "item \<in> set (clothingItems db)"
    using assms(6) find_holds [of "\<lambda>c. ci_id c = cid" "clothingItems db" item]
    by (simp add: getClothingItem_def)
  with cid assms(9) have full:
    "list_ex (\<lambda>c. ci_id c = cid \<and> maxCount \<le> ci_tryOnCount c) (clothingItems db)"
    by (auto simp: list_ex_iff)
  show ?thesis
    using assms(1,3,4,5,6,7,8) live sid cid full
    by (simp add: tryon_def createTryOnHistory_def incrementTryOnCount_def Let_def truthy_simps)
qed

text \<open>Strictly after \<open>expiresAt\<close> the request is refused and nothing is written.\<close>

lemma tryon_after_expiry:
  assumes "getCustomerSession db sid = Some session"
    and "cs_expiresAt session < now"
    and "sid \<noteq> []" and "cid \<noteq> []"
  shows "tryon maxCount apiKey gen stamp db now (Some sid) (Some cid) =
           (Inl (HttpError 401 ''Session expired''), db)"
  using assms by (simp add: tryon_session_gate)

text \<open>
  C2. At the instant \<open>now = expiresAt\<close> the session is no longer live
  (\<open>now < expiresAt\<close> is false) and the grant it came from is already refused, yet the
  try-on request is served: the guard \<open>expiresAt < now\<close> lets it pass, a history row
  and an audit entry are written and the counter goes from 4 to 5.
\<close>

theorem tryon_accepted_at_expiry_instant:
  "getCustomerSession sample_db ''c1'' =
     Some \<lparr>cs_id = ''c1'', cs_qrSessionId = ''q1'', cs_storeId = ''s1'',
           cs_expiresAt = 3600000, cs_photoUrl = Some ''/uploads/customers/me.png''\<rparr> \<and>
   fst (tryon 2147483647 None (\<lambda>_ _ _. None) ''3600000-7'' sample_db 3600000 (Some ''c1'') (Some ''i1'')) =
     Inr \<lparr>tr_resultImageUrl = ''/uploads/clothing/jacket.png'',
           tr_message = Some ''Demo mode - Gemini API key not configured''\<rparr> \<and>
   tryOnHistory (snd (tryon 2147483647 None (\<lambda>_ _ _. None) ''3600000-7'' sample_db 3600000 (Some ''c1'')
       (Some ''i1''))) =
     [\<lparr>th_customerSessionId = ''c1'', th_clothingItemId = ''i1'',
       th_resultImageUrl = ''/uploads/clothing/jacket.png''\<rparr>] \<and>
   map ci_tryOnCount (clothingItems (snd (tryon 2147483647 None (\<lambda>_ _ _. None) ''3600000-7'' sample_db
       3600000 (Some ''c1'') (Some ''i1'')))) = [5, 0] \<and>
   length (usageLogs (snd (tryon 2147483647 None (\<lambda>_ _ _. None) ''3600000-7'' sample_db 3600000
       (Some ''c1'') (Some ''i1'')))) = 1 \<and>
   fst (qr_validate sample_db 3600000 ''c3'' ''tok1'') =
     Inl (HttpError 404 ''Invalid or expired session'')"
  by (simp add: sample_db_def tryon_def qr_validate_def storage_defs Let_def)

text \<open>The request above carries both ids, so it is past the handler's first check.\<close>

theorem tryon_accepted_at_expiry_instant_witness:
  "truthy (Some ''c1'') \<and> truthy (Some ''i1'') \<and>
   \<not> (3600000 < (3600000::int)) \<and>
   fst (tryon 2147483647 None (\<lambda>_ _ _. None) ''3600000-7'' sample_db 3600000 (Some ''c1'') (Some ''i1'')) =
     Inr \<lparr>tr_resultImageUrl = ''/uploads/clothing/jacket.png'',
           tr_message = Some ''Demo mode - Gemini API key not configured''\<rparr> \<and>
   length (tryOnHistory (snd (tryon 2147483647 None (\<lambda>_ _ _. None) ''3600000-7'' sample_db 3600000
       (Some ''c1'') (Some ''i1'')))) = 1"
  using tryon_accepted_at_expiry_instant by (simp add: truthy_simps)

section \<open>Attaching a photo\<close>

lemma upload_photo_live:
  assumes "getCustomerSession db sid = Some session"
    and "now < cs_expiresAt session"
    and "sid \<noteq> []"
  shows "upload_photo db now (Some sid) (Some f) =
           (Inr (''/uploads/customers/'' @ f),
            updateCustomerSession db sid (\<lambda>s. s\<lparr>cs_photoUrl := Some (''/uploads/customers/'' @ f)\<rparr>))"
  using assms by (simp add: upload_photo_def Let_def)

lemma getCustomerSession_update:
  "getCustomerSession (updateCustomerSession db sid (\<lambda>s. s\<lparr>cs_photoUrl := p\<rparr>)) i =
     map_option (\<lambda>s. if cs_id s = sid then s\<lparr>cs_photoUrl := p\<rparr> else s) (getCustomerSession db i)"
  unfolding getCustomerSession_def updateCustomerSession_def
  by (simp add: find_map_same)

lemma updateCustomerSession_twice:
  "updateCustomerSession (updateCustomerSession db sid (\<lambda>s. s\<lparr>cs_photoUrl := p\<rparr>)) sid
     (\<lambda>s. s\<lparr>cs_photoUrl := p'\<rparr>) =
   updateCustomerSession db sid (\<lambda>s. s\<lparr>cs_photoUrl := p'\<rparr>)"
  unfolding updateCustomerSession_def by (simp add: o_def if_distrib cong: if_cong)

text \<open>
  C8. For every live customer session, an upload with the session's id and a file
  succeeds and sets the session's photo reference to the new file's URL, whatever was
  attached before; a second upload while the session is live leaves exactly the state
  that the second upload alone would have left. Any upload that carries a session id
  and a file is either accepted or answered with status 401, "Session expired", the
  reply that an unknown session id gets as well.
\<close>

theorem upload_photo_overwrites:
  assumes "getCustomerSession db sid = Some session"
    and "now < cs_expiresAt session"
    and "now' < cs_expiresAt session"
    and "sid \<noteq> []"
    and "sid2 \<noteq> []"
  shows "upload_photo db now (Some sid) (Some f) =
           (Inr (''/uploads/customers/'' @ f),
            updateCustomerSession db sid
              (\<lambda>s. s\<lparr>cs_photoUrl := Some (''/uploads/customers/'' @ f)\<rparr>)) \<and>
         getCustomerSession (snd (upload_photo db now (Some sid) (Some f))) sid =
           Some (session\<lparr>cs_photoUrl := Some (''/uploads/customers/'' @ f)\<rparr>) \<and>
         upload_photo (snd (upload_photo db now (Some sid) (Some f))) now' (Some sid) (Some g) =
           upload_photo db now' (Some sid) (Some g) \<and>
         ((\<exists>db'. upload_photo db2 t (Some sid2) (Some h) =
                   (Inr (''/uploads/customers/'' @ h), db')) \<or>
          upload_photo db2 t (Some sid2) (Some h) = (Inl (HttpError 401 ''Session expired''), db2))"
proof -
  let ?url = "\<lambda>f. ''/uploads/customers/'' @ f"
  let ?db1 = "updateCustomerSession db sid (\<lambda>s. s\<lparr>cs_photoUrl := Some (?url f)\<rparr>)"
  have sid: "cs_id session = sid" using assms(1) by (rule getCustomerSession_id)
  have first: "upload_photo db now (Some sid) (Some f) = (Inr (?url f), ?db1)"
    using assms(1,2,4) by (rule upload_photo_live)
  have stored: "getCustomerSession ?db1 sid = Some (session\<lparr>cs_photoUrl := Some (?url f)\<rparr>)"
    using assms(1) sid by (simp add: getCustomerSession_update)
  have "upload_photo ?db1 now' (Some sid) (Some g) =
          (Inr (?url g), updateCustomerSession ?db1 sid (\<lambda>s. s\<lparr>cs_photoUrl := Some (?url g)\<rparr>))"
    using stored assms(3,4) by (simp add: upload_photo_live)
  also have "\<dots> = (Inr (?url g), updateCustomerSession db sid (\<lambda>s. s\<lparr>cs_photoUrl := Some (?url g)\<rparr>))"
    by (simp add: updateCustomerSession_twice)
  also have "\<dots> = upload_photo db now' (Some sid) (Some g)"
    using assms(1,3,4) by (simp add: upload_photo_live)
  finally have second: "upload_photo ?db1 now' (Some sid) (Some g) =
      upload_photo db now' (Some sid) (Some g)" .
  have outcome: "(\<exists>db'. upload_photo db2 t (Some sid2) (Some h) = (Inr (?url h), db')) \<or>
      upload_photo db2 t (Some sid2) (Some h) = (Inl (HttpError 401 ''Session expired''), db2)"
    using assms(5) by (simp add: upload_photo_def Let_def split: option.splits)
  from first stored second outcome show ?thesis by simp
qed

theorem upload_photo_overwrites_witness:
  "getCustomerSession sample_db ''c1'' =
     Some \<lparr>cs_id = ''c1'', cs_qrSessionId = ''q1'', cs_storeId = ''s1'',
           cs_expiresAt = 3600000, cs_photoUrl = Some ''/uploads/customers/me.png''\<rparr> \<and>
   fst (upload_photo sample_db 1000 (Some ''c1'') (Some ''a.png'')) =
     Inr ''/uploads/customers/a.png'' \<and>
   getCustomerSession (snd (upload_photo sample_db 1000 (Some ''c1'') (Some ''a.png''))) ''c1'' =
     Some \<lparr>cs_id = ''c1'', cs_qrSessionId = ''q1'', cs_storeId = ''s1'',
           cs_expiresAt = 3600000, cs_photoUrl = Some ''/uploads/customers/a.png''\<rparr> \<and>
   upload_photo (snd (upload_photo sample_db 1000 (Some ''c1'') (Some ''a.png''))) 2000
       (Some ''c1'') (Some ''b.png'') =
     upload_photo sample_db 2000 (Some ''c1'') (Some ''b.png'') \<and>
   upload_photo sample_db 1000 (Some ''c9'') (Some ''a.png'') =
     (Inl (HttpError 401 ''Session expired''), sample_db)"
proof -
  let ?s = "\<lparr>cs_id = ''c1'', cs_qrSessionId = ''q1'', cs_storeId = ''s1'',
             cs_expiresAt = 3600000, cs_photoUrl = Some ''/uploads/customers/me.png''\<rparr>"
  have h1: "getCustomerSession sample_db ''c1'' = Some ?s"
    by (simp add: sample_db_def getCustomerSession_def)
  have h2: "1000 < cs_expiresAt ?s" and h3: "2000 < cs_expiresAt ?s" by simp_all
  have h4: "''c1'' \<noteq> []" and h5: "''c9'' \<noteq> []" by simp_all
  have none: "getCustomerSession sample_db ''c9'' = None"
    by (simp add: sample_db_def getCustomerSession_def)
  have not_ok: "\<not> (\<exists>db'. upload_photo sample_db 1000 (Some ''c9'') (Some ''a.png'') =
                   (Inr (''/uploads/customers/'' @ ''a.png''), db'))"
    using none by (simp add: upload_photo_def Let_def)
  from upload_photo_overwrites [OF h1 h2 h3 h4 h5,
      of "''a.png''" "''b.png''" sample_db 1000 "''a.png''"] h1 not_ok
  show ?thesis by auto
qed

section \<open>Staff accounts\<close>

text \<open>
  C10. A login for an existing but deactivated user is answered with status 401,
  "Invalid credentials", whatever password is sent, and that reply is equal to the
  one an active user gets for a wrong password. The reply is an error, so it carries
  no bearer token.
\<close>

theorem login_inactive_user_rejected:
  assumes "getUserByEmail db email = Some user"
    and "\<not> u_isActive user"
    and "getUserByEmail db' email' = Some user'"
    and "u_isActive user'"
    and "\<not> compare password' (u_password user')"
  shows "login compare sign db (Some (email, password)) =
           Inl (HttpError 401 ''Invalid credentials'') \<and>
         login compare sign db' (Some (email', password')) =
           login compare sign db (Some (email, password))"
  using assms by (simp add: login_def)

theorem login_inactive_user_rejected_witness:
  "sample_compare ''letmein'' ''bcrypt:letmein'' \<and>
   login sample_compare sample_sign sample_db (Some (''former@example.com'', ''letmein'')) =
     Inl (HttpError 401 ''Invalid credentials'') \<and>
   login sample_compare sample_sign sample_db (Some (''manager@example.com'', ''guess'')) =
     login sample_compare sample_sign sample_db (Some (''former@example.com'', ''letmein''))"
proof -
  let ?former = "\<lparr>u_id = ''u3'', u_email = ''former@example.com'', u_password = ''bcrypt:letmein'',
          u_role = ''store_manager'', u_storeId = Some ''s2'', u_mustResetPassword = False,
          u_isActive = False\<rparr>"
  let ?manager = "\<lparr>u_id = ''u2'', u_email = ''manager@example.com'',
          u_password = ''bcrypt:welcome1'',
          u_role = ''store_manager'', u_storeId = Some ''s1'', u_mustResetPassword = True,
          u_isActive = True\<rparr>"
  have h1: "getUserByEmail sample_db ''former@example.com'' = Some ?former"
    by (simp add: sample_db_def getUserByEmail_def)
  have h2: "\<not> u_isActive ?former" by simp
  have h3: "getUserByEmail sample_db ''manager@example.com'' = Some ?manager"
    by (simp add: sample_db_def getUserByEmail_def)
  have h4: "u_isActive ?manager" by simp
  have h5: "\<not> sample_compare ''guess'' (u_password ?manager)" by (simp add: sample_compare_def)
  have right: "sample_compare ''letmein'' ''bcrypt:letmein''" by (simp add: sample_compare_def)
  from login_inactive_user_rejected [where compare = sample_compare and sign = sample_sign
      and password = "''letmein''" and password' = "''guess''", OF h1 h2 h3 h4 h5] right
  show ?thesis by simp
qed

text \<open>A user's own reset, with the right current password, stores the new hash.\<close>

lemma getUser_id: "getUser db i = Some user \<Longrightarrow> u_id user = i"
  using find_holds [of "\<lambda>u. u_id u = i" "users db" user] by (simp add: getUser_def)

lemma reset_password_replaces_hash:
  assumes "getUser db (jc_id claims) = Some user"
    and "compare currentPassword (u_password user)"
  shows "reset_password compare hash db (Verified claims) (Some (currentPassword, newPassword)) =
           (Inr ''Password updated successfully'',
            updateUser db (jc_id claims)
              (\<lambda>u. u\<lparr>u_password := hash newPassword, u_mustResetPassword := False\<rparr>))"
    and "getUser (updateUser db (jc_id claims)
              (\<lambda>u. u\<lparr>u_password := hash newPassword, u_mustResetPassword := False\<rparr>))
            (jc_id claims) =
           Some (user\<lparr>u_password := hash newPassword, u_mustResetPassword := False\<rparr>)"
proof -
  have i: "u_id user = jc_id claims" using assms(1) by (rule getUser_id)
  show "reset_password compare hash db (Verified claims) (Some (currentPassword, newPassword)) =
           (Inr ''Password updated successfully'',
            updateUser db (jc_id claims)
              (\<lambda>u. u\<lparr>u_password := hash newPassword, u_mustResetPassword := False\<rparr>))"
    using assms i by (simp add: reset_password_def authMiddleware_def Let_def)
  show "getUser (updateUser db (jc_id claims)
              (\<lambda>u. u\<lparr>u_password := hash newPassword, u_mustResetPassword := False\<rparr>))
            (jc_id claims) =
           Some (user\<lparr>u_password := hash newPassword, u_mustResetPassword := False\<rparr>)"
    using assms(1) i by (simp add: getUser_def updateUser_def find_map_same)
qed

lemma store_reset_password_writes_nothing:
  "snd (store_reset_password hash db auth storeId tempPassword) = db"
  by (simp add: store_reset_password_def Let_def split: sum.splits option.splits)

text \<open>
  C9. The owner's reset of a store manager's password on the sample data: the reply is
  "Password reset successfully" with a temporary password, the database is returned
  as it was, the manager cannot log in with the temporary password and still logs in
  with the old one. The manager's own reset to the same password, by contrast,
  replaces the stored hash and lets the new password log in.
\<close>

theorem store_reset_password_temp_password_rejected:
  "store_reset_password sample_hash sample_db
      (Verified \<lparr>jc_id = ''u1'', jc_email = ''owner@example.com'', jc_role = ''company_owner'',
                 jc_storeId = None\<rparr>) ''s1'' ''9f3a1c07'' =
     (Inr \<lparr>tp_tempPassword = ''9f3a1c07'', tp_message = ''Password reset successfully''\<rparr>,
      sample_db) \<and>
   login sample_compare sample_sign sample_db (Some (''manager@example.com'', ''9f3a1c07'')) =
     Inl (HttpError 401 ''Invalid credentials'') \<and>
   login sample_compare sample_sign sample_db (Some (''manager@example.com'', ''welcome1'')) =
     Inr \<lparr>lr_token = ''jwt:u2'',
           lr_user = \<lparr>uv_id = ''u2'', uv_email = ''manager@example.com'',
                      uv_role = ''store_manager'', uv_storeId = Some ''s1'',
                      uv_storeName = Some ''Main Street'', uv_mustResetPassword = True\<rparr>\<rparr> \<and>
   map u_password (users (snd (reset_password sample_compare sample_hash sample_db
       (Verified \<lparr>jc_id = ''u2'', jc_email = ''manager@example.com'',
                  jc_role = ''store_manager'', jc_storeId = Some ''s1''\<rparr>)
       (Some (''welcome1'', ''9f3a1c07''))))) =
     [''bcrypt:admin123'', ''bcrypt:9f3a1c07'', ''bcrypt:letmein''] \<and>
   login sample_compare sample_sign
       (snd (reset_password sample_compare sample_hash sample_db
          (Verified \<lparr>jc_id = ''u2'', jc_email = ''manager@example.com'',
                     jc_role = ''store_manager'', jc_storeId = Some ''s1''\<rparr>)
          (Some (''welcome1'', ''9f3a1c07''))))
       (Some (''manager@example.com'', ''9f3a1c07'')) =
     Inr \<lparr>lr_token = ''jwt:u2'',
           lr_user = \<lparr>uv_id = ''u2'', uv_email = ''manager@example.com'',
                      uv_role = ''store_manager'', uv_storeId = Some ''s1'',
                      uv_storeName = Some ''Main Street'', uv_mustResetPassword = False\<rparr>\<rparr>"
  by (simp add: store_reset_password_def reset_password_def login_def authMiddleware_def
      ownerOnlyMiddleware_def sample_db_def sample_hash_def sample_compare_def sample_sign_def
      storage_defs Let_def)

end
